theory Spec2Isabelle
  imports Main "HOL-Library.Word"
begin

section \<open>The DID application of abci/did: state, store access and commit\<close>

text \<open>
  A shallow embedding of \<^verbatim>\<open>abci/did/did.go\<close> and \<^verbatim>\<open>abci/did/as.go\<close>.
  Go's \<^verbatim>\<open>string\<close> and \<^verbatim>\<open>[]byte\<close> are both byte sequences and are modelled as
  \<^typ>\<open>string\<close>; the conversions between them are the identity. A method with the
  receiver \<^verbatim>\<open>app *DIDApplication\<close> takes the application value and returns the updated
  one. Logging is left out: it writes to no field of the application.
\<close>

subsection \<open>Data model\<close>

text \<open>
  The working tree of \<^verbatim>\<open>iavl.VersionedTree\<close>, as far as \<^verbatim>\<open>Get\<close>, \<^verbatim>\<open>Set\<close> and
  \<^verbatim>\<open>Remove\<close> observe it: a finite map from key bytes to value bytes. \<^verbatim>\<open>Get\<close>
  of a key that is not in the tree returns the value \<^verbatim>\<open>nil\<close>, which is \<^term>\<open>None\<close>.
\<close>

type_synonym tree = "string \<rightharpoonup> string"

text \<open>
  \<^verbatim>\<open>type State struct\<close>. \<^verbatim>\<open>int64\<close> is a 64-bit word (\<^verbatim>\<open>++\<close> and \<^verbatim>\<open>--\<close> wrap
  around, \<^term>\<open>sint\<close> reads the signed value). A \<^verbatim>\<open>nil\<close> slice is the empty list.
\<close>

record State =
  db :: tree
  Size :: "64 word"
  Height :: "64 word"
  AppHash :: string
  UncommitKeys :: "string list"
  CommitStr :: string

text \<open>
  The part of \<^typ>\<open>State\<close> that \<^verbatim>\<open>encoding/json\<close> sees: the exported fields, under
  their \<^verbatim>\<open>json\<close> tags (\<^verbatim>\<open>db\<close> is unexported and never serialised).
\<close>

record StateRecord =
  size_tag :: "64 word"
  height_tag :: "64 word"
  app_hash :: string
  uncommit_keys :: "string list"
  commit_str :: string

definition exported :: "State \<Rightarrow> StateRecord" where
  "exported st =
     \<lparr>size_tag = Size st, height_tag = Height st, app_hash = AppHash st,
      uncommit_keys = UncommitKeys st, commit_str = CommitStr st\<rparr>"

text \<open>\<^verbatim>\<open>types.Validator\<close> of the ABCI library; the functions below only pass it on.\<close>

typedecl Validator

text \<open>\<^verbatim>\<open>type DIDApplication struct\<close>, without the logger.\<close>

record DIDApplication =
  state :: State
  ValUpdates :: "Validator list"
  Version :: string

definition stateKey :: string where
  "stateKey = ''stateKey''"

definition kvPairPrefixKey :: string where
  "kvPairPrefixKey = ''kvPairKey:''"

text \<open>
  \<^verbatim>\<open>prefixKey\<close>: the bytes of the prefix followed by the bytes of the key. The
  result of \<^verbatim>\<open>append\<close> is taken as a value of its own (no sharing with the array
  of \<^verbatim>\<open>kvPairPrefixKey\<close>).
\<close>

definition prefixKey :: "string \<Rightarrow> string" where
  "prefixKey key = kvPairPrefixKey @ key"

subsection \<open>Loading and saving the state record\<close>

text \<open>
  \<^verbatim>\<open>json.Marshal\<close> and \<^verbatim>\<open>json.Unmarshal\<close> at type \<^verbatim>\<open>State\<close> belong to Go's
  standard library and are parameters: \<open>Marshal\<close> gives the bytes of a record
  (for this struct \<^verbatim>\<open>json.Marshal\<close> has no error case), \<open>Unmarshal\<close> gives
  the record read into a zero \<^verbatim>\<open>State\<close>, or \<^term>\<open>None\<close> for an error.
\<close>

definition zeroState :: "tree \<Rightarrow> State" where
  "zeroState t =
     \<lparr>db = t, Size = 0, Height = 0, AppHash = [], UncommitKeys = [], CommitStr = []\<rparr>"

definition fromRecord :: "StateRecord \<Rightarrow> tree \<Rightarrow> State" where
  "fromRecord r t =
     \<lparr>db = t, Size = size_tag r, Height = height_tag r, AppHash = app_hash r,
      UncommitKeys = uncommit_keys r, CommitStr = commit_str r\<rparr>"

text \<open>\<^verbatim>\<open>loadState\<close>; \<^term>\<open>None\<close> is its \<^verbatim>\<open>panic(err)\<close>.\<close>

definition loadState :: "(string \<Rightarrow> StateRecord option) \<Rightarrow> tree \<Rightarrow> State option" where
  "loadState Unmarshal t =
     (case t stateKey of
        None \<Rightarrow> Some (zeroState t)
      | Some stateBytes \<Rightarrow>
          if length stateBytes \<noteq> 0 then
            (case Unmarshal stateBytes of
               None \<Rightarrow> None
             | Some r \<Rightarrow> Some (fromRecord r t))
          else Some (zeroState t))"

text \<open>
  \<^verbatim>\<open>saveState\<close> receives a copy of the state whose \<^verbatim>\<open>db\<close> pointer is the
  application's tree, so the \<^verbatim>\<open>Set\<close> is a write to the application's tree.
\<close>

definition saveState :: "(StateRecord \<Rightarrow> string) \<Rightarrow> State \<Rightarrow> State" where
  "saveState Marshal st = st\<lparr>db := (db st)(stateKey \<mapsto> Marshal (exported st))\<rparr>"

subsection \<open>Store access\<close>

text \<open>
  A method that can panic ends in one of two ways, and in both the application is left
  with the writes made up to that point.
\<close>

datatype outcome =
    Returned (appAfter: DIDApplication)
  | Panicked (appAfter: DIDApplication)

text \<open>
  \<^verbatim>\<open>SetStateDB\<close>. The value is a \<^verbatim>\<open>[]byte\<close> and can be \<^verbatim>\<open>nil\<close>, which is
  \<^term>\<open>None\<close> here; \<^term>\<open>Some []\<close> is an empty slice that is not \<^verbatim>\<open>nil\<close>. The
  tree's \<^verbatim>\<open>Set\<close> panics on a \<^verbatim>\<open>nil\<close> value: by then the key has been appended
  to \<^verbatim>\<open>UncommitKeys\<close>, nothing is written and \<^verbatim>\<open>Size++\<close> is not reached.
\<close>

definition SetStateDB :: "string \<Rightarrow> string option \<Rightarrow> DIDApplication \<Rightarrow> outcome" where
  "SetStateDB key val app =
     (let st = state app;
          st1 = (if key \<noteq> ''stateKey''
                 then st\<lparr>UncommitKeys := UncommitKeys st @ [key]\<rparr> else st)
      in case val of
           None \<Rightarrow> Panicked (app\<lparr>state := st1\<rparr>)
         | Some bytes \<Rightarrow>
             (let st2 = st1\<lparr>db := (db st1)(prefixKey key \<mapsto> bytes)\<rparr>;
                  st3 = st2\<lparr>Size := Size st2 + 1\<rparr>
              in Returned (app\<lparr>state := st3\<rparr>)))"

definition DeleteStateDB :: "string \<Rightarrow> DIDApplication \<Rightarrow> DIDApplication" where
  "DeleteStateDB key app =
     (let st = state app;
          st1 = st\<lparr>db := (db st)(prefixKey key := None)\<rparr>;
          st2 = st1\<lparr>Size := Size st1 - 1\<rparr>
      in app\<lparr>state := st2\<rparr>)"

subsection \<open>Commit\<close>

text \<open>\<^verbatim>\<open>hex.EncodeToString\<close>: two lower-case hexadecimal digits for every byte.\<close>

definition hextable :: string where
  "hextable = ''0123456789abcdef''"

fun EncodeToString :: "string \<Rightarrow> string" where
  "EncodeToString [] = []"
| "EncodeToString (v # src) =
     hextable ! (of_char v div 16) # hextable ! (of_char v mod 16) # EncodeToString src"

text \<open>
  The loop of \<^verbatim>\<open>Commit\<close> over \<^verbatim>\<open>app.state.UncommitKeys\<close>, with the string
  \<^verbatim>\<open>newAppHashString\<close> it builds as the accumulator.
\<close>

fun commitLoop :: "tree \<Rightarrow> string list \<Rightarrow> string \<Rightarrow> string" where
  "commitLoop t [] newAppHashString = newAppHashString"
| "commitLoop t (key # keys) newAppHashString =
     (case t (prefixKey key) of
        None \<Rightarrow> commitLoop t keys newAppHashString
      | Some val \<Rightarrow> commitLoop t keys (newAppHashString @ key @ val))"

datatype ResponseCommit = ResponseCommit (Data: string)

text \<open>
  \<^verbatim>\<open>Commit\<close>. \<open>Sum256\<close> is the digest that \<^verbatim>\<open>sha256.New\<close>, \<^verbatim>\<open>Write\<close> and
  \<^verbatim>\<open>Sum(nil)\<close> compute of the bytes written (standard library, a parameter).
\<close>

definition Commit ::
  "(string \<Rightarrow> string) \<Rightarrow> (StateRecord \<Rightarrow> string) \<Rightarrow> DIDApplication
     \<Rightarrow> ResponseCommit \<times> DIDApplication" where
  "Commit Sum256 Marshal app =
     (let st = state app;
          newAppHashString = commitLoop (db st) (UncommitKeys st) [];
          st1 = (if newAppHashString \<noteq> []
                 then st\<lparr>CommitStr := EncodeToString (Sum256 (CommitStr st @ newAppHashString))\<rparr>
                 else st);
          st2 = st1\<lparr>AppHash := CommitStr st1\<rparr>;
          st3 = st2\<lparr>Height := Height st2 + 1\<rparr>;
          st4 = saveState Marshal st3;
          st5 = st4\<lparr>UncommitKeys := []\<rparr>
      in (ResponseCommit (AppHash st5), app\<lparr>state := st5\<rparr>))"

text \<open>
  The accumulator in the words of the specification: for each tracked key, in order and
  with repetitions, the key bytes followed by the value bytes when the store holds a
  value for the key, and nothing otherwise.
\<close>

definition accumulator :: "tree \<Rightarrow> string list \<Rightarrow> string" where
  "accumulator t keys =
     concat (map (\<lambda>key. case t (prefixKey key) of None \<Rightarrow> [] | Some val \<Rightarrow> key @ val) keys)"

subsection \<open>The transaction envelope\<close>

text \<open>
  \<^verbatim>\<open>base64.StdEncoding.DecodeString\<close> of Go's standard library: the alphabet
  \<^verbatim>\<open>A-Z a-z 0-9 + /\<close>, padding with \<^verbatim>\<open>=\<close>, not strict, and \<^verbatim>\<open>\r\<close> and
  \<^verbatim>\<open>\n\<close> ignored. \<^term>\<open>decodeMap\<close> is its table (\<^term>\<open>None\<close> for the entry
  \<^verbatim>\<open>0xff\<close>).
\<close>

definition decodeMap :: "char \<Rightarrow> nat option" where
  "decodeMap c =
     (let n = (of_char c :: nat) in
      if 65 \<le> n \<and> n \<le> 90 then Some (n - 65)
      else if 97 \<le> n \<and> n \<le> 122 then Some (n - 71)
      else if 48 \<le> n \<and> n \<le> 57 then Some (n + 4)
      else if n = 43 then Some 62
      else if n = 47 then Some 63
      else None)"

definition isNewline :: "char \<Rightarrow> bool" where
  "isNewline c = (of_char c = (10::nat) \<or> of_char c = (13::nat))"

definition padChar :: char where
  "padChar = CHR ''=''"

text \<open>
  The bytes of one quantum: \<open>dbuf\<close> holds the 6-bit values read (two, three or
  four of them), and one byte less than its length is written.
\<close>

definition quantumBytes :: "nat list \<Rightarrow> string" where
  "quantumBytes dbuf =
     (let d = dbuf @ replicate (4 - length dbuf) 0;
          v = ((d ! 0 * 64 + d ! 1) * 64 + d ! 2) * 64 + d ! 3
      in take (length dbuf - 1)
           [char_of (v div 65536), char_of (v div 256 mod 256), char_of (v mod 256)])"

text \<open>The error \<^verbatim>\<open>CorruptInputError\<close> carries the offset of the offending byte.\<close>

datatype CorruptInputError = CorruptInputError nat

text \<open>
  After the padding of the last quantum only line breaks may follow: the result of
  \<^verbatim>\<open>decodeQuantum\<close> from the point where the padding is complete, \<open>si\<close> being the
  offset of the first byte of \<open>src\<close>.
\<close>

fun afterPadding :: "string \<Rightarrow> nat \<Rightarrow> string \<Rightarrow> CorruptInputError + string" where
  "afterPadding [] si out = Inr out"
| "afterPadding (c # src) si out =
     (if isNewline c then afterPadding src (Suc si) out
      else Inl (CorruptInputError si))"

text \<open>The second \<^verbatim>\<open>=\<close> of a quantum with two values, after any line breaks.\<close>

fun secondPad :: "string \<Rightarrow> nat \<Rightarrow> string \<Rightarrow> CorruptInputError + string" where
  "secondPad [] si out = Inl (CorruptInputError si)"
| "secondPad (c # src) si out =
     (if isNewline c then secondPad src (Suc si) out
      else if c \<noteq> padChar then Inl (CorruptInputError (si - 1))
      else afterPadding src (Suc si) out)"

text \<open>
  \<^verbatim>\<open>Decode\<close> with \<^verbatim>\<open>decodeQuantum\<close> unrolled over the input: \<open>si\<close> is the offset
  of the next byte, \<open>dbuf\<close> the values of the current quantum (its length is the
  \<^verbatim>\<open>j\<close> of the source) and \<open>dst\<close> the bytes decoded so far.
\<close>

fun decode :: "string \<Rightarrow> nat \<Rightarrow> nat list \<Rightarrow> string \<Rightarrow> CorruptInputError + string" where
  "decode [] si dbuf dst =
     (if dbuf = [] then Inr dst else Inl (CorruptInputError (si - length dbuf)))"
| "decode (c # src) si dbuf dst =
     (case decodeMap c of
        Some v \<Rightarrow>
          if length dbuf = 3 then decode src (Suc si) [] (dst @ quantumBytes (dbuf @ [v]))
          else decode src (Suc si) (dbuf @ [v]) dst
      | None \<Rightarrow>
          if isNewline c then decode src (Suc si) dbuf dst
          else if c \<noteq> padChar then Inl (CorruptInputError si)
          else if length dbuf < 2 then Inl (CorruptInputError si)
          else if length dbuf = 2 then secondPad src (Suc si) (dst @ quantumBytes dbuf)
          else afterPadding src (Suc si) (dst @ quantumBytes dbuf))"

definition DecodeString :: "string \<Rightarrow> CorruptInputError + string" where
  "DecodeString s = decode s 0 [] []"

text \<open>
  \<^verbatim>\<open>strings.Split(s, sep)\<close> for a separator of one byte: the pieces of \<open>s\<close>
  between the separators, at least one piece.
\<close>

fun Split :: "string \<Rightarrow> char \<Rightarrow> string list" where
  "Split [] sep = [[]]"
| "Split (c # s) sep =
     (if c = sep then [] # Split s sep
      else (case Split s sep of
              [] \<Rightarrow> [[c]]
            | piece # pieces \<Rightarrow> (c # piece) # pieces))"

text \<open>\<^verbatim>\<open>strings.Replace(s, old, new, -1)\<close> for \<open>old\<close> and \<open>new\<close> of one byte.\<close>

definition Replace :: "string \<Rightarrow> char \<Rightarrow> char \<Rightarrow> string" where
  "Replace s old new = map (\<lambda>c. if c = old then new else c) s"

subsection \<open>Responses\<close>

text \<open>
  The constants of the package \<^verbatim>\<open>code\<close> that the two source files name, as an
  enumeration (their numbers are declared outside these files).
\<close>

datatype code =
    OK | DecodingError | WrongTransactionFormat | MethodCanNotBeEmpty
  | UnmarshalError | MarshalError | RequestIDNotFound | RequestIsClosed
  | RequestIsTimedOut | NodeIDIsNotExistInASList | ServiceIDNotFound

text \<open>
  \<^verbatim>\<open>ReturnDeliverTxLog(code, log, extraData)\<close> and \<^verbatim>\<open>ReturnCheckTx(ok)\<close> are
  declared outside these files; a response is modelled as the record of the arguments
  it was built from.
\<close>

datatype ResponseDeliverTx = ReturnDeliverTxLog (Code: code) (Log: string) (ExtraData: string)

datatype ResponseCheckTx = ReturnCheckTx (accepted: bool)

text \<open>\<^verbatim>\<open>CorruptInputError.Error()\<close>, with \<^verbatim>\<open>strconv.FormatInt(n, 10)\<close>.\<close>

fun digits :: "nat \<Rightarrow> nat \<Rightarrow> string" where
  "digits 0 n = []"
| "digits (Suc fuel) n =
     (if n < 10 then [char_of (48 + n)]
      else digits fuel (n div 10) @ [char_of (48 + n mod 10)])"

definition FormatInt :: "nat \<Rightarrow> string" where
  "FormatInt n = digits (Suc n) n"

fun Error :: "CorruptInputError \<Rightarrow> string" where
  "Error (CorruptInputError n) = ''illegal base64 data at input byte '' @ FormatInt n"

subsection \<open>DeliverTx and CheckTx\<close>

text \<open>
  A handler runs on the application and either returns a response or panics
  (\<^term>\<open>None\<close>); in both cases the writes it made so far stay. The deferred function
  of \<^verbatim>\<open>DeliverTx\<close> turns a panic into the response \<^verbatim>\<open>WrongTransactionFormat\<close>.
\<close>

type_synonym handled = "ResponseDeliverTx option \<times> DIDApplication"

definition recoverDeliverTx :: "handled \<Rightarrow> ResponseDeliverTx \<times> DIDApplication" where
  "recoverDeliverTx r =
     (case fst r of
        None \<Rightarrow> (ReturnDeliverTxLog WrongTransactionFormat ''wrong transaction format'' [], snd r)
      | Some res \<Rightarrow> (res, snd r))"

text \<open>
  \<^verbatim>\<open>DeliverTx\<close>. The functions \<^verbatim>\<open>isValidatorTx\<close>, \<^verbatim>\<open>execValidatorTx\<close> and
  \<^verbatim>\<open>DeliverTxRouter\<close> are declared outside these files and are parameters.
  Indexing \<^verbatim>\<open>parts\<close> beyond its length panics before anything else is done, which
  is the last case.
\<close>

definition DeliverTx ::
  "(string \<Rightarrow> bool) \<Rightarrow> (string \<Rightarrow> DIDApplication \<Rightarrow> handled)
     \<Rightarrow> (string \<Rightarrow> string \<Rightarrow> string \<Rightarrow> string \<Rightarrow> string \<Rightarrow> DIDApplication \<Rightarrow> handled)
     \<Rightarrow> string \<Rightarrow> DIDApplication \<Rightarrow> ResponseDeliverTx \<times> DIDApplication" where
  "DeliverTx isValidatorTx execValidatorTx DeliverTxRouter tx app =
     (if isValidatorTx tx then recoverDeliverTx (execValidatorTx tx app)
      else
        (case DecodeString tx of
           Inl err \<Rightarrow> (ReturnDeliverTxLog DecodingError (Error err) [], app)
         | Inr txString \<Rightarrow>
             (case Split txString (CHR ''|'') of
                method # param # nonce # signature # nodeID # _ \<Rightarrow>
                  if method \<noteq> []
                  then recoverDeliverTx (DeliverTxRouter method param nonce signature nodeID app)
                  else (ReturnDeliverTxLog MethodCanNotBeEmpty ''method can not be empty'' [], app)
              | _ \<Rightarrow>
                  (ReturnDeliverTxLog WrongTransactionFormat ''wrong transaction format'' [],
                   app))))"

text \<open>
  \<^verbatim>\<open>CheckTx\<close>; a panic on indexing \<^verbatim>\<open>parts\<close> is recovered as
  \<^verbatim>\<open>ReturnCheckTx(false)\<close>.
\<close>

definition CheckTx ::
  "(string \<Rightarrow> bool) \<Rightarrow> string \<Rightarrow> DIDApplication \<Rightarrow> ResponseCheckTx \<times> DIDApplication" where
  "CheckTx isValidatorTx tx app =
     (if isValidatorTx tx then (ReturnCheckTx True, app)
      else
        (case DecodeString (Replace tx (CHR '' '') (CHR ''+'')) of
           Inl err \<Rightarrow> (ReturnCheckTx False, app)
         | Inr txString \<Rightarrow>
             (case Split txString (CHR ''|'') of
                method # param # nonce # signature # nodeID # _ \<Rightarrow>
                  if method \<noteq> [] \<and> param \<noteq> [] \<and> nonce \<noteq> [] \<and> signature \<noteq> []
                     \<and> nodeID \<noteq> []
                  then (ReturnCheckTx True, app)
                  else (ReturnCheckTx False, app)
              | _ \<Rightarrow> (ReturnCheckTx False, app))))"

subsection \<open>Start-up\<close>

text \<open>\<^verbatim>\<open>getEnv\<close>; \<open>LookupEnv\<close> is the process environment (\<^verbatim>\<open>os.LookupEnv\<close>).\<close>

definition getEnv :: "(string \<Rightarrow> string option) \<Rightarrow> string \<Rightarrow> string \<Rightarrow> string" where
  "getEnv LookupEnv key defaultValue =
     (case LookupEnv key of None \<Rightarrow> defaultValue | Some val \<Rightarrow> val)"

text \<open>
  \<^verbatim>\<open>NewDIDApplication\<close>. \<open>NewVersionedTree name dir\<close> is the tree that
  \<^verbatim>\<open>iavl.NewVersionedTree(dbm.NewDB(name, "leveldb", dir), 0)\<close> hands out for the
  database of that name in that directory; \<^term>\<open>None\<close> is the panic of
  \<^verbatim>\<open>loadState\<close>, which the deferred function raises again.
\<close>

definition NewDIDApplication ::
  "(string \<Rightarrow> string option) \<Rightarrow> (string \<Rightarrow> string \<Rightarrow> tree)
     \<Rightarrow> (string \<Rightarrow> StateRecord option) \<Rightarrow> DIDApplication option" where
  "NewDIDApplication LookupEnv NewVersionedTree Unmarshal =
     (let dbDir = getEnv LookupEnv ''DB_NAME'' ''DID'';
          name = ''didDB'';
          tree = NewVersionedTree name dbDir
      in case loadState Unmarshal tree of
           None \<Rightarrow> None
         | Some st \<Rightarrow> Some \<lparr>state = st, ValUpdates = [], Version = ''0.0.1''\<rparr>)"

text \<open>The application that \<^verbatim>\<open>NewDIDApplication\<close> returns over an empty tree.\<close>

definition emptyApplication :: DIDApplication where
  "emptyApplication = \<lparr>state = zeroState Map.empty, ValUpdates = [], Version = ''0.0.1''\<rparr>"

subsection \<open>Sequences of calls\<close>

text \<open>A sequence of \<^verbatim>\<open>CheckTx\<close> calls on one application, with the responses.\<close>

fun CheckTxs ::
  "(string \<Rightarrow> bool) \<Rightarrow> string list \<Rightarrow> DIDApplication
     \<Rightarrow> ResponseCheckTx list \<times> DIDApplication" where
  "CheckTxs isValidatorTx [] app = ([], app)"
| "CheckTxs isValidatorTx (tx # txs) app =
     (let r = CheckTx isValidatorTx tx app;
          rs = CheckTxs isValidatorTx txs (snd r)
      in (fst r # fst rs, snd rs))"

text \<open>
  The envelope that \<^verbatim>\<open>CheckTx\<close> lets through, as a predicate on the decoded string:
  at least five pieces, none of the first five empty.
\<close>

definition fiveNonEmpty :: "string \<Rightarrow> bool" where
  "fiveNonEmpty txString =
     (let parts = Split txString (CHR ''|'')
      in 5 \<le> length parts \<and> [] \<notin> set (take 5 parts))"

text \<open>
  An instance of the parameter \<^verbatim>\<open>isValidatorTx\<close> for concrete inputs: the
  transactions that start with \<^verbatim>\<open>val:\<close>.
\<close>

definition valPrefix :: "string \<Rightarrow> bool" where
  "valPrefix tx = (take 4 tx = ''val:'')"



subsection \<open>The handler signData\<close>

text \<open>
  The structs \<^verbatim>\<open>SignDataParam\<close>, \<^verbatim>\<open>Request\<close> and \<^verbatim>\<open>DataRequest\<close> are declared
  outside these files; the records have the fields that \<^verbatim>\<open>signData\<close> reads or
  writes.
\<close>

record SignDataParam =
  ServiceID :: string
  RequestID :: string
  Signature :: string

record DataRequest =
  ServiceID :: string
  As :: "string list"
  AnsweredAsIdList :: "string list"

record Request =
  IsClosed :: bool
  IsTimedOut :: bool
  DataRequestList :: "DataRequest list"

text \<open>
  \<^verbatim>\<open>json.Unmarshal\<close> and \<^verbatim>\<open>json.Marshal\<close> at the two struct types (standard
  library, parameters): \<^term>\<open>Inl\<close> carries the text of the error.
\<close>

text \<open>
  The bytes that \<^verbatim>\<open>json.Marshal\<close> returns without an error are not \<^verbatim>\<open>nil\<close>, so
  the two \<^verbatim>\<open>SetStateDB\<close> calls of \<^verbatim>\<open>signData\<close> get \<^term>\<open>Some\<close> values and
  return.
\<close>

record JSON =
  Unmarshal_SignDataParam :: "string \<Rightarrow> string + SignDataParam"
  Unmarshal_Request :: "string \<Rightarrow> string + Request"
  Marshal_SignDataParam :: "SignDataParam \<Rightarrow> string + string"
  Marshal_Request :: "Request \<Rightarrow> string + string"

text \<open>The inner loop over \<^verbatim>\<open>dataRequest.As\<close>; its \<^verbatim>\<open>break\<close> leaves this loop only.\<close>

fun asLoop :: "string list \<Rightarrow> string \<Rightarrow> bool \<Rightarrow> bool" where
  "asLoop [] nodeID exist = exist"
| "asLoop (as # rest) nodeID exist =
     (if as = nodeID then True else asLoop rest nodeID exist)"

text \<open>
  The loop over \<^verbatim>\<open>request.DataRequestList\<close> that computes \<^verbatim>\<open>exist\<close>; the
  \<^verbatim>\<open>break\<close> for an empty \<^verbatim>\<open>As\<close> leaves it.
\<close>

fun existLoop :: "DataRequest list \<Rightarrow> string \<Rightarrow> string \<Rightarrow> bool \<Rightarrow> bool" where
  "existLoop [] serviceID nodeID exist = exist"
| "existLoop (dataRequest # rest) serviceID nodeID exist =
     (if DataRequest.ServiceID dataRequest = serviceID then
        (if length (As dataRequest) = 0 then True
         else existLoop rest serviceID nodeID (asLoop (As dataRequest) nodeID exist))
      else existLoop rest serviceID nodeID exist)"

text \<open>The loop that appends \<^verbatim>\<open>nodeID\<close> to \<^verbatim>\<open>AnsweredAsIdList\<close>.\<close>

fun answeredLoop :: "DataRequest list \<Rightarrow> string \<Rightarrow> string \<Rightarrow> DataRequest list" where
  "answeredLoop [] serviceID nodeID = []"
| "answeredLoop (dataRequest # rest) serviceID nodeID =
     (if DataRequest.ServiceID dataRequest = serviceID
      then dataRequest\<lparr>AnsweredAsIdList := AnsweredAsIdList dataRequest @ [nodeID]\<rparr>
      else dataRequest)
     # answeredLoop rest serviceID nodeID"

definition signData ::
  "JSON \<Rightarrow> string \<Rightarrow> DIDApplication \<Rightarrow> string \<Rightarrow> ResponseDeliverTx \<times> DIDApplication" where
  "signData J param app nodeID =
     (case Unmarshal_SignDataParam J param of
        Inl err \<Rightarrow> (ReturnDeliverTxLog UnmarshalError err [], app)
      | Inr signData \<Rightarrow>
          (let requestKey = ''Request'' @ ''|'' @ RequestID signData in
           case db (state app) (prefixKey requestKey) of
             None \<Rightarrow> (ReturnDeliverTxLog RequestIDNotFound ''Request ID not found'' [], app)
           | Some requestJSON \<Rightarrow>
               (case Unmarshal_Request J requestJSON of
                  Inl err \<Rightarrow> (ReturnDeliverTxLog UnmarshalError err [], app)
                | Inr request \<Rightarrow>
                    if IsClosed request
                    then (ReturnDeliverTxLog RequestIsClosed ''Request is closed'' [], app)
                    else if IsTimedOut request
                    then (ReturnDeliverTxLog RequestIsTimedOut ''Request is timed out'' [], app)
                    else if existLoop (DataRequestList request)
                              (SignDataParam.ServiceID signData) nodeID False = False
                    then (ReturnDeliverTxLog NodeIDIsNotExistInASList
                            ''Node ID is not exist in AS list'' [], app)
                    else
                      (let signDataKey = ''SignData'' @ ''|'' @ Signature signData in
                       case Marshal_SignDataParam J signData of
                         Inl err \<Rightarrow> (ReturnDeliverTxLog MarshalError err [], app)
                       | Inr signDataJSON \<Rightarrow>
                           (let request1 = request\<lparr>DataRequestList :=
                                  answeredLoop (DataRequestList request)
                                    (SignDataParam.ServiceID signData) nodeID\<rparr> in
                            case Marshal_Request J request1 of
                              Inl err \<Rightarrow> (ReturnDeliverTxLog MarshalError err [], app)
                            | Inr requestJSON1 \<Rightarrow>
                                (ReturnDeliverTxLog OK ''success'' (RequestID signData),
                                 appAfter (SetStateDB signDataKey (Some signDataJSON)
                                   (appAfter (SetStateDB requestKey (Some requestJSON1)
                                      app)))))))))"

subsection \<open>What the commit hash is computed from\<close>

text \<open>
  Two applications have the same consensus state when they agree on \<^verbatim>\<open>CommitStr\<close>,
  on the tracked keys and on the value under every prefixed key. They may differ in
  \<^verbatim>\<open>Size\<close>, \<^verbatim>\<open>Height\<close> and \<^verbatim>\<open>AppHash\<close>, in the entries of the tree outside
  the prefix (the state record, entries of validators), in \<^verbatim>\<open>ValUpdates\<close> and in
  \<^verbatim>\<open>Version\<close>.
\<close>

definition sameConsensusState :: "DIDApplication \<Rightarrow> DIDApplication \<Rightarrow> bool" where
  "sameConsensusState a b =
     (CommitStr (state a) = CommitStr (state b)
      \<and> UncommitKeys (state a) = UncommitKeys (state b)
      \<and> (\<forall>key. db (state a) (prefixKey key) = db (state b) (prefixKey key)))"



section \<open>Properties\<close>

lemma commitLoop_accumulator:
  "commitLoop t keys acc = acc @ accumulator t keys"
  by (induction keys arbitrary: acc) (auto simp: accumulator_def split: option.splits)


lemma NewDIDApplication_empty:
  "NewDIDApplication LookupEnv (\<lambda>name dir. Map.empty) Unmarshal = Some emptyApplication"
  by (simp add: NewDIDApplication_def loadState_def emptyApplication_def)

subsection \<open>SetStateDB\<close>

lemma SetStateDB_Some:
  "SetStateDB key (Some val) app = Returned (appAfter (SetStateDB key (Some val) app))"
  by (simp add: SetStateDB_def Let_def)

text \<open>
  C5 (as stated, refuted). The claim has \<^verbatim>\<open>SetStateDB\<close> append the key to
  \<^verbatim>\<open>UncommitKeys\<close> for every key, and write and count for every value. For the key
  \<^verbatim>\<open>"stateKey"\<close> the guard of \<^verbatim>\<open>SetStateDB\<close> skips the append: on the empty
  application the tracker stays empty, while the value is written and the size is
  incremented. For a \<^verbatim>\<open>nil\<close> value the call panics in the tree's \<^verbatim>\<open>Set\<close>: the
  key \<^verbatim>\<open>"A"\<close> is tracked, nothing is written and the size stays 0.
\<close>

theorem SetStateDB_stateKey_not_tracked:
  "UncommitKeys (state (appAfter (SetStateDB ''stateKey'' (Some ''v'') emptyApplication))) = []
   \<and> UncommitKeys (state (appAfter (SetStateDB ''stateKey'' (Some ''v'') emptyApplication)))
       \<noteq> UncommitKeys (state emptyApplication) @ [''stateKey'']
   \<and> db (state (appAfter (SetStateDB ''stateKey'' (Some ''v'') emptyApplication)))
        (prefixKey ''stateKey'') = Some ''v''
   \<and> Size (state (appAfter (SetStateDB ''stateKey'' (Some ''v'') emptyApplication))) = 1
   \<and> SetStateDB ''A'' None emptyApplication
       = Panicked (emptyApplication\<lparr>state := (state emptyApplication)\<lparr>UncommitKeys := [''A'']\<rparr>\<rparr>)
   \<and> db (state (appAfter (SetStateDB ''A'' None emptyApplication))) (prefixKey ''A'') = None
   \<and> Size (state (appAfter (SetStateDB ''A'' None emptyApplication))) = 0"
  by (simp add: SetStateDB_def emptyApplication_def zeroState_def)

text \<open>
  C5 (amended). For every key and every value that is not \<^verbatim>\<open>nil\<close> (an empty value
  included), \<^verbatim>\<open>SetStateDB\<close> returns, having written the value under the prefixed key
  and incremented \<^verbatim>\<open>Size\<close> by one (in 64-bit arithmetic), whether or not the key
  already holds a value; it appends the raw key to \<^verbatim>\<open>UncommitKeys\<close>, duplicates
  included, for every key but \<^verbatim>\<open>"stateKey"\<close>, for which the tracker is left as it
  is. Nothing else changes. With a \<^verbatim>\<open>nil\<close> value the call does not return: the
  tracker is extended in the same way, and neither the tree nor \<^verbatim>\<open>Size\<close> nor
  anything else changes.
\<close>

theorem SetStateDB_effect:
  "SetStateDB key (Some val) app = Returned (appAfter (SetStateDB key (Some val) app))
   \<and> db (state (appAfter (SetStateDB key (Some val) app)))
       = (db (state app))(prefixKey key \<mapsto> val)
   \<and> Size (state (appAfter (SetStateDB key (Some val) app))) = Size (state app) + 1
   \<and> UncommitKeys (state (appAfter (SetStateDB key (Some val) app)))
       = (if key = ''stateKey'' then UncommitKeys (state app)
          else UncommitKeys (state app) @ [key])
   \<and> Height (state (appAfter (SetStateDB key (Some val) app))) = Height (state app)
   \<and> AppHash (state (appAfter (SetStateDB key (Some val) app))) = AppHash (state app)
   \<and> CommitStr (state (appAfter (SetStateDB key (Some val) app))) = CommitStr (state app)
   \<and> ValUpdates (appAfter (SetStateDB key (Some val) app)) = ValUpdates app
   \<and> Version (appAfter (SetStateDB key (Some val) app)) = Version app
   \<and> SetStateDB key None app
       = Panicked (app\<lparr>state := (state app)\<lparr>UncommitKeys :=
            (if key = ''stateKey'' then UncommitKeys (state app)
             else UncommitKeys (state app) @ [key])\<rparr>\<rparr>)"
  by (simp add: SetStateDB_def Let_def)

subsection \<open>Commit\<close>

lemma Commit_state:
  "state (snd (Commit Sum256 Marshal app)) =
     (let st = state app;
          acc = accumulator (db st) (UncommitKeys st);
          commitStr = (if acc \<noteq> [] then EncodeToString (Sum256 (CommitStr st @ acc))
                       else CommitStr st)
      in \<lparr>db = (db st)(stateKey \<mapsto>
                 Marshal \<lparr>size_tag = Size st, height_tag = Height st + 1, app_hash = commitStr,
                          uncommit_keys = UncommitKeys st, commit_str = commitStr\<rparr>),
          Size = Size st, Height = Height st + 1, AppHash = commitStr,
          UncommitKeys = [], CommitStr = commitStr\<rparr>)"
  by (simp add: Commit_def Let_def saveState_def exported_def commitLoop_accumulator)

lemma Commit_response:
  "fst (Commit Sum256 Marshal app) = ResponseCommit (AppHash (state (snd (Commit Sum256 Marshal app))))"
  by (simp add: Commit_def Let_def)

text \<open>
  The signed reading of \<^verbatim>\<open>Height++\<close>: one more, except at the largest
  \<^verbatim>\<open>int64\<close>, where Go wraps around.
\<close>

lemma int64_increment:
  "sint (h :: 64 word) \<noteq> 2 ^ 63 - 1 \<Longrightarrow> sint (h + 1) = sint h + 1"
proof -
  assume a: "sint h \<noteq> 2 ^ 63 - 1"
  have lo: "- (2 ^ 63) \<le> sint h" using sint_ge [of h] by simp
  have hi: "sint h < 2 ^ 63" using sint_lt [of h] by simp
  have "sint (h + 1) = signed_take_bit 63 (sint h + sint (1 :: 64 word))"
    by (simp add: sint_word_ariths)
  also have "\<dots> = signed_take_bit 63 (sint h + 1)" by simp
  also have "\<dots> = sint h + 1"
    by (rule signed_take_bit_int_eq_self) (use a lo hi in simp_all)
  finally show ?thesis .
qed

lemma Commit_height_signed:
  "sint (Height (state app)) \<noteq> 2 ^ 63 - 1 \<Longrightarrow>
   sint (Height (state (snd (Commit Sum256 Marshal app)))) = sint (Height (state app)) + 1"
  by (simp add: Commit_state Let_def int64_increment)

lemma Commit_frame:
  "ValUpdates (snd (Commit Sum256 Marshal app)) = ValUpdates app
   \<and> Version (snd (Commit Sum256 Marshal app)) = Version app"
  by (simp add: Commit_def Let_def)

text \<open>
  C2. The postcondition of \<^verbatim>\<open>Commit\<close>. With \<open>acc\<close> the accumulator over
  \<^verbatim>\<open>UncommitKeys\<close> in insertion order and without deduplication (key bytes then value
  bytes for each key that currently has a value), the new \<^verbatim>\<open>CommitStr\<close> is the hex
  encoding of the digest of the previous \<^verbatim>\<open>CommitStr\<close> followed by \<open>acc\<close> when
  \<open>acc\<close> is not empty, and the previous \<^verbatim>\<open>CommitStr\<close> otherwise; \<^verbatim>\<open>AppHash\<close>
  and the response data are the bytes of the new \<^verbatim>\<open>CommitStr\<close>; \<^verbatim>\<open>Height\<close> is
  one more in either case; the state record, still holding the tracked keys, is stored
  under \<^verbatim>\<open>stateKey\<close> and no other key of the tree changes; and
  \<^verbatim>\<open>UncommitKeys\<close> is empty afterwards.
\<close>

theorem Commit_postcondition:
  "(let st = state app;
        acc = accumulator (db st) (UncommitKeys st);
        commitStr = (if acc \<noteq> [] then EncodeToString (Sum256 (CommitStr st @ acc))
                     else CommitStr st);
        res = fst (Commit Sum256 Marshal app);
        st' = state (snd (Commit Sum256 Marshal app))
    in CommitStr st' = commitStr
       \<and> AppHash st' = commitStr
       \<and> Data res = commitStr
       \<and> Height st' = Height st + 1
       \<and> Size st' = Size st
       \<and> UncommitKeys st' = []
       \<and> db st' = (db st)(stateKey \<mapsto>
            Marshal \<lparr>size_tag = Size st, height_tag = Height st + 1, app_hash = commitStr,
                     uncommit_keys = UncommitKeys st, commit_str = commitStr\<rparr>))"
  by (simp add: Commit_state Commit_response Let_def)

text \<open>
  C3 (as stated, refuted). The claim has \<^verbatim>\<open>AppHash\<close> unchanged by \<^verbatim>\<open>Commit\<close>
  only if \<^verbatim>\<open>UncommitKeys\<close> was empty. Take the empty application after a first
  \<^verbatim>\<open>Commit\<close> (of a block without transactions), then \<^verbatim>\<open>SetStateDB("A", "1")\<close>
  and \<^verbatim>\<open>DeleteStateDB("A")\<close>: the tracker holds \<^verbatim>\<open>"A"\<close>, the store has no
  value for it, the loop of the second \<^verbatim>\<open>Commit\<close> adds nothing, and \<^verbatim>\<open>AppHash\<close>
  is what it was. Neither \<^verbatim>\<open>Commit\<close> reaches the digest; the digest and the
  serialiser are instantiated with stand-ins.
\<close>

theorem Commit_hash_unchanged_with_tracked_key:
  "UncommitKeys (state (DeleteStateDB ''A'' (appAfter (SetStateDB ''A'' (Some ''1'')
       (snd (Commit (\<lambda>b. b) (\<lambda>r. ''{}'') emptyApplication)))))) = [''A'']
   \<and> AppHash (state (snd (Commit (\<lambda>b. b) (\<lambda>r. ''{}'')
         (DeleteStateDB ''A'' (appAfter (SetStateDB ''A'' (Some ''1'')
           (snd (Commit (\<lambda>b. b) (\<lambda>r. ''{}'') emptyApplication))))))))
     = AppHash (state (DeleteStateDB ''A'' (appAfter (SetStateDB ''A'' (Some ''1'')
         (snd (Commit (\<lambda>b. b) (\<lambda>r. ''{}'') emptyApplication))))))"
  by (simp add: Commit_state Let_def accumulator_def SetStateDB_def DeleteStateDB_def
      emptyApplication_def zeroState_def prefixKey_def kvPairPrefixKey_def stateKey_def)

text \<open>
  C3 (amended). In a state whose \<^verbatim>\<open>AppHash\<close> is the bytes of its \<^verbatim>\<open>CommitStr\<close>
  (the empty application, and every state after a \<^verbatim>\<open>Commit\<close>), \<^verbatim>\<open>AppHash\<close> after
  \<^verbatim>\<open>Commit\<close> equals \<^verbatim>\<open>AppHash\<close> before exactly when the accumulator is empty or
  the hex digest of the previous \<^verbatim>\<open>CommitStr\<close> followed by the accumulator is the
  previous \<^verbatim>\<open>CommitStr\<close> again; the accumulator is empty when \<^verbatim>\<open>UncommitKeys\<close>
  is empty, so an empty tracker leaves \<^verbatim>\<open>AppHash\<close> unchanged.
\<close>

theorem Commit_hash_purity:
  "AppHash (state app) = CommitStr (state app) \<Longrightarrow>
   ((AppHash (state (snd (Commit Sum256 Marshal app))) = AppHash (state app))
      = (accumulator (db (state app)) (UncommitKeys (state app)) = []
         \<or> EncodeToString (Sum256 (CommitStr (state app)
              @ accumulator (db (state app)) (UncommitKeys (state app))))
            = CommitStr (state app)))
   \<and> (UncommitKeys (state app) = []
        \<longrightarrow> AppHash (state (snd (Commit Sum256 Marshal app))) = AppHash (state app))"
  by (auto simp: Commit_state Let_def accumulator_def)

theorem Commit_hash_purity_witness:
  "AppHash (state emptyApplication) = CommitStr (state emptyApplication)
   \<and> UncommitKeys (state emptyApplication) = []
   \<and> AppHash (state (snd (Commit (\<lambda>b. b) (\<lambda>r. ''{}'') emptyApplication)))
       = AppHash (state emptyApplication)"
proof -
  have h: "AppHash (state emptyApplication) = CommitStr (state emptyApplication)"
    by (simp add: emptyApplication_def zeroState_def)
  have k: "UncommitKeys (state emptyApplication) = []"
    by (simp add: emptyApplication_def zeroState_def)
  from Commit_hash_purity [OF h, of "\<lambda>b. b" "\<lambda>r. ''{}''"] h k show ?thesis by blast
qed

subsection \<open>CheckTx\<close>

lemmas base64_defs =
  DecodeString_def decodeMap_def quantumBytes_def isNewline_def padChar_def Replace_def
  char_of_def bit_Suc_0_iff

lemma CheckTx_app: "snd (CheckTx isValidatorTx tx app) = app"
  by (simp add: CheckTx_def split: sum.splits list.splits)

lemma CheckTx_response_independent:
  "fst (CheckTx isValidatorTx tx app) = fst (CheckTx isValidatorTx tx app')"
  by (simp add: CheckTx_def split: sum.splits list.splits)

lemma fiveNonEmpty_iff:
  "fiveNonEmpty txString =
     (case Split txString (CHR ''|'') of
        method # param # nonce # signature # nodeID # rest \<Rightarrow>
          method \<noteq> [] \<and> param \<noteq> [] \<and> nonce \<noteq> [] \<and> signature \<noteq> [] \<and> nodeID \<noteq> []
      | _ \<Rightarrow> False)"
  by (auto simp: fiveNonEmpty_def Let_def split: list.splits)

text \<open>
  C7. A sequence of \<^verbatim>\<open>CheckTx\<close> calls, whatever the inputs, returns the application
  it started from: the tree, \<^verbatim>\<open>Size\<close>, \<^verbatim>\<open>Height\<close>, \<^verbatim>\<open>AppHash\<close>,
  \<^verbatim>\<open>UncommitKeys\<close> and \<^verbatim>\<open>CommitStr\<close> are as before.
\<close>

theorem CheckTxs_isolation:
  "snd (CheckTxs isValidatorTx txs app) = app"
  by (induction txs arbitrary: app) (simp_all add: Let_def CheckTx_app)

text \<open>
  C6 (as stated, refuted). The claim has \<^verbatim>\<open>CheckTx\<close> answer \<^verbatim>\<open>false\<close> on a wrong
  field count. The transaction \<^verbatim>\<open>YXxifGN8ZHxlfGY=\<close> decodes to \<^verbatim>\<open>a|b|c|d|e|f\<close>,
  which has six fields, and \<^verbatim>\<open>CheckTx\<close> accepts it: only \<^verbatim>\<open>parts[0]\<close> to
  \<^verbatim>\<open>parts[4]\<close> are read.
\<close>

theorem CheckTx_accepts_six_fields:
  "DecodeString (Replace ''YXxifGN8ZHxlfGY='' (CHR '' '') (CHR ''+'')) = Inr ''a|b|c|d|e|f''
   \<and> length (Split ''a|b|c|d|e|f'' (CHR ''|'')) = 6
   \<and> CheckTx valPrefix ''YXxifGN8ZHxlfGY='' emptyApplication
       = (ReturnCheckTx True, emptyApplication)"
  by (simp add: CheckTx_def valPrefix_def base64_defs)

text \<open>
  C6 (amended). For every input that is not a validator transaction, \<^verbatim>\<open>CheckTx\<close>
  accepts exactly when the input, with every space replaced by \<^verbatim>\<open>+\<close>, decodes and
  the decoded string splits into at least five fields of which the first five are not
  empty; on a decoding failure, on fewer than five fields and on an empty field among
  the first five it answers \<^verbatim>\<open>false\<close>. The answer is the same on every application
  (nothing of the store is read) and the application is returned as it was.
\<close>

theorem CheckTx_accepts_iff:
  "\<not> isValidatorTx tx \<Longrightarrow>
   accepted (fst (CheckTx isValidatorTx tx app))
     = (case DecodeString (Replace tx (CHR '' '') (CHR ''+'')) of
          Inl err \<Rightarrow> False
        | Inr txString \<Rightarrow> fiveNonEmpty txString)
   \<and> fst (CheckTx isValidatorTx tx app) = fst (CheckTx isValidatorTx tx app')
   \<and> snd (CheckTx isValidatorTx tx app) = app"
  by (simp add: CheckTx_def fiveNonEmpty_iff split: sum.splits list.splits)

theorem CheckTx_accepts_iff_witness:
  "\<not> valPrefix ''YXxifGN8ZHxl''
   \<and> DecodeString (Replace ''YXxifGN8ZHxl'' (CHR '' '') (CHR ''+'')) = Inr ''a|b|c|d|e''
   \<and> fiveNonEmpty ''a|b|c|d|e''
   \<and> accepted (fst (CheckTx valPrefix ''YXxifGN8ZHxl'' emptyApplication))
   \<and> snd (CheckTx valPrefix ''YXxifGN8ZHxl'' emptyApplication) = emptyApplication"
proof -
  have nv: "\<not> valPrefix ''YXxifGN8ZHxl''"
    by (simp add: valPrefix_def)
  have d: "DecodeString (Replace ''YXxifGN8ZHxl'' (CHR '' '') (CHR ''+'')) = Inr ''a|b|c|d|e''"
    by (simp add: base64_defs)
  have f: "fiveNonEmpty ''a|b|c|d|e''"
    by (simp add: fiveNonEmpty_def)
  from CheckTx_accepts_iff [where isValidatorTx = valPrefix and tx = "''YXxifGN8ZHxl''"
      and app = emptyApplication and app' = emptyApplication] nv d f
  show ?thesis by simp
qed

subsection \<open>DeliverTx\<close>

lemma afterPadding_garbage:
  "c \<in> set src \<Longrightarrow> \<not> isNewline c \<Longrightarrow> isl (afterPadding src si out)"
  by (induction src arbitrary: si) auto

lemma secondPad_garbage:
  "c \<in> set src \<Longrightarrow> \<not> isNewline c \<Longrightarrow> c \<noteq> padChar \<Longrightarrow> isl (secondPad src si out)"
  by (induction src arbitrary: si) (auto simp: afterPadding_garbage)

lemma decode_illegal_byte:
  "c \<in> set src \<Longrightarrow> decodeMap c = None \<Longrightarrow> \<not> isNewline c \<Longrightarrow> c \<noteq> padChar
   \<Longrightarrow> isl (decode src si dbuf dst)"
proof (induction src arbitrary: si dbuf dst)
  case Nil
  then show ?case by simp
next
  case (Cons x src)
  show ?case
  proof (cases "decodeMap x")
    case (Some v)
    with Cons.prems have "c \<in> set src" by auto
    with Cons Some show ?thesis by simp
  next
    case None
    show ?thesis
    proof (cases "x = c")
      case True
      with Cons.prems None show ?thesis by simp
    next
      case False
      with Cons.prems have mem: "c \<in> set src" by simp
      with Cons None show ?thesis
        by (simp add: secondPad_garbage afterPadding_garbage)
    qed
  qed
qed

lemma DecodeString_space:
  "CHR '' '' \<in> set s \<Longrightarrow> isl (DecodeString s)"
  unfolding DecodeString_def
  by (rule decode_illegal_byte [where c = "CHR '' ''"])
     (simp_all add: decodeMap_def isNewline_def padChar_def)

lemma DeliverTx_decoding_error:
  "\<not> isValidatorTx tx \<Longrightarrow> isl (DecodeString tx) \<Longrightarrow>
   Code (fst (DeliverTx isValidatorTx execValidatorTx DeliverTxRouter tx app)) = DecodingError
   \<and> snd (DeliverTx isValidatorTx execValidatorTx DeliverTxRouter tx app) = app"
  by (auto simp: DeliverTx_def isl_def)

text \<open>
  C4 (as stated, refuted). The claim has \<^verbatim>\<open>DeliverTx\<close> reject every decoded string
  that does not split into exactly five fields, without a state change. The transaction
  \<^verbatim>\<open>bXxwfG58c3xpZHx4\<close> decodes to \<^verbatim>\<open>m|p|n|s|id|x\<close>, which has six fields;
  \<^verbatim>\<open>DeliverTx\<close> reads \<^verbatim>\<open>parts[0]\<close> to \<^verbatim>\<open>parts[4]\<close> and calls the router. With a
  router whose handler stores the parameter under the method name, the response is the
  handler's and the application has changed. With six empty fields
  (\<^verbatim>\<open>fHx8fHw=\<close>) the response is \<^verbatim>\<open>MethodCanNotBeEmpty\<close>.
\<close>

theorem DeliverTx_six_fields_dispatched:
  "DecodeString ''bXxwfG58c3xpZHx4'' = Inr ''m|p|n|s|id|x''
   \<and> length (Split ''m|p|n|s|id|x'' (CHR ''|'')) = 6
   \<and> DeliverTx valPrefix (\<lambda>tx app. (None, app))
        (\<lambda>method param nonce signature nodeID app.
           (Some (ReturnDeliverTxLog OK ''success'' []),
            appAfter (SetStateDB method (Some param) app)))
        ''bXxwfG58c3xpZHx4'' emptyApplication
       = (ReturnDeliverTxLog OK ''success'' [], appAfter (SetStateDB ''m'' (Some ''p'') emptyApplication))
   \<and> UncommitKeys (state (appAfter (SetStateDB ''m'' (Some ''p'') emptyApplication))) = [''m'']
   \<and> UncommitKeys (state emptyApplication) = []
   \<and> Size (state (appAfter (SetStateDB ''m'' (Some ''p'') emptyApplication))) = 1
   \<and> Size (state emptyApplication) = 0
   \<and> DecodeString ''fHx8fHw='' = Inr ''|||||''
   \<and> length (Split ''|||||'' (CHR ''|'')) = 6
   \<and> Code (fst (DeliverTx valPrefix (\<lambda>tx app. (None, app))
        (\<lambda>method param nonce signature nodeID app.
           (Some (ReturnDeliverTxLog OK ''success'' []),
            appAfter (SetStateDB method (Some param) app)))
        ''fHx8fHw='' emptyApplication)) = MethodCanNotBeEmpty"
  by (simp add: DeliverTx_def recoverDeliverTx_def valPrefix_def base64_defs
      SetStateDB_def emptyApplication_def zeroState_def)

text \<open>
  C4 (amended). For every transaction that is not a validator transaction and whose
  decoded string splits into fewer than five fields, \<^verbatim>\<open>DeliverTx\<close> returns the
  response \<^verbatim>\<open>WrongTransactionFormat\<close> and the application is unchanged (the tree,
  \<^verbatim>\<open>Size\<close>, \<^verbatim>\<open>UncommitKeys\<close>, \<^verbatim>\<open>Height\<close> and \<^verbatim>\<open>AppHash\<close>). A decoded
  string with five or more fields is handled by its first five: an empty method gives
  \<^verbatim>\<open>MethodCanNotBeEmpty\<close> without a state change, any other method goes to the
  router.
\<close>

theorem DeliverTx_field_count:
  "\<not> isValidatorTx tx \<Longrightarrow> DecodeString tx = Inr txString \<Longrightarrow>
   DeliverTx isValidatorTx execValidatorTx DeliverTxRouter tx app =
     (let parts = Split txString (CHR ''|'') in
      if length parts < 5
      then (ReturnDeliverTxLog WrongTransactionFormat ''wrong transaction format'' [], app)
      else if parts ! 0 \<noteq> []
      then recoverDeliverTx
             (DeliverTxRouter (parts ! 0) (parts ! 1) (parts ! 2) (parts ! 3) (parts ! 4) app)
      else (ReturnDeliverTxLog MethodCanNotBeEmpty ''method can not be empty'' [], app))"
  by (simp add: DeliverTx_def Let_def split: list.splits)

theorem DeliverTx_field_count_witness:
  "\<not> valPrefix ''b25seW9uZWZpZWxk''
   \<and> DecodeString ''b25seW9uZWZpZWxk'' = Inr ''onlyonefield''
   \<and> length (Split ''onlyonefield'' (CHR ''|'')) = 1
   \<and> DeliverTx valPrefix (\<lambda>tx app. (None, app))
        (\<lambda>method param nonce signature nodeID app.
           (Some (ReturnDeliverTxLog OK ''success'' []),
            appAfter (SetStateDB method (Some param) app)))
        ''b25seW9uZWZpZWxk'' emptyApplication
       = (ReturnDeliverTxLog WrongTransactionFormat ''wrong transaction format'' [],
          emptyApplication)"
proof -
  have nv: "\<not> valPrefix ''b25seW9uZWZpZWxk''"
    by (simp add: valPrefix_def)
  have d: "DecodeString ''b25seW9uZWZpZWxk'' = Inr ''onlyonefield''"
    by (simp add: base64_defs)
  have l: "length (Split ''onlyonefield'' (CHR ''|'')) = 1"
    by simp
  from DeliverTx_field_count [where isValidatorTx = valPrefix, OF nv d] nv d l
  show ?thesis by (simp add: Let_def)
qed

text \<open>
  C9. \<^verbatim>\<open>CheckTx\<close> replaces every space by \<^verbatim>\<open>+\<close> before it decodes, and
  \<^verbatim>\<open>DeliverTx\<close> decodes the bytes as they are. So every transaction (not a validator
  transaction) that contains a space and that, with the spaces replaced, decodes to five
  or more fields with the first five not empty, is accepted by \<^verbatim>\<open>CheckTx\<close> and gets
  the response \<^verbatim>\<open>DecodingError\<close> from \<^verbatim>\<open>DeliverTx\<close>. The transaction
  \<^verbatim>\<open>YXxifGN8ZHx \<close> (with a final space, for \<^verbatim>\<open>a|b|c|d|~\<close>) is one.
\<close>

theorem CheckTx_accepts_DeliverTx_rejects:
  "\<not> isValidatorTx tx \<Longrightarrow> CHR '' '' \<in> set tx \<Longrightarrow>
   DecodeString (Replace tx (CHR '' '') (CHR ''+'')) = Inr txString \<Longrightarrow>
   fiveNonEmpty txString \<Longrightarrow>
   fst (CheckTx isValidatorTx tx app) = ReturnCheckTx True
   \<and> Code (fst (DeliverTx isValidatorTx execValidatorTx DeliverTxRouter tx app)) = DecodingError"
  by (simp add: DeliverTx_decoding_error DecodeString_space)
     (simp add: CheckTx_def fiveNonEmpty_iff split: list.splits)

theorem CheckTx_accepts_DeliverTx_rejects_witness:
  "\<not> valPrefix ''YXxifGN8ZHx ''
   \<and> CHR '' '' \<in> set ''YXxifGN8ZHx ''
   \<and> DecodeString (Replace ''YXxifGN8ZHx '' (CHR '' '') (CHR ''+'')) = Inr ''a|b|c|d|~''
   \<and> fiveNonEmpty ''a|b|c|d|~''
   \<and> fst (CheckTx valPrefix ''YXxifGN8ZHx '' emptyApplication) = ReturnCheckTx True
   \<and> Code (fst (DeliverTx valPrefix (\<lambda>tx app. (None, app))
        (\<lambda>method param nonce signature nodeID app.
           (Some (ReturnDeliverTxLog OK ''success'' []),
            appAfter (SetStateDB method (Some param) app)))
        ''YXxifGN8ZHx '' emptyApplication)) = DecodingError"
proof -
  have nv: "\<not> valPrefix ''YXxifGN8ZHx ''"
    by (simp add: valPrefix_def)
  have sp: "CHR '' '' \<in> set ''YXxifGN8ZHx ''"
    by simp
  have d: "DecodeString (Replace ''YXxifGN8ZHx '' (CHR '' '') (CHR ''+'')) = Inr ''a|b|c|d|~''"
    by (simp add: base64_defs)
  have f: "fiveNonEmpty ''a|b|c|d|~''"
    by (simp add: fiveNonEmpty_def)
  from CheckTx_accepts_DeliverTx_rejects [where isValidatorTx = valPrefix, OF nv sp d f] nv sp d f
  show ?thesis by blast
qed

subsection \<open>Determinism of the commit responses\<close>


lemma sameConsensusState_refl: "sameConsensusState a a"
  by (simp add: sameConsensusState_def)



lemma DeleteStateDB_sameConsensusState:
  "sameConsensusState a b
   \<Longrightarrow> sameConsensusState (DeleteStateDB key a) (DeleteStateDB key b)"
  by (simp add: sameConsensusState_def DeleteStateDB_def Let_def)









subsection \<open>The state record stored by Commit\<close>

text \<open>
  C8. \<^verbatim>\<open>Commit\<close> calls \<^verbatim>\<open>saveState\<close> before it clears \<^verbatim>\<open>UncommitKeys\<close>: the
  record stored under \<^verbatim>\<open>stateKey\<close> has the keys tracked in the block as its
  \<^verbatim>\<open>uncommit_keys\<close>, while the live list is empty. If \<^verbatim>\<open>json.Marshal\<close> gives that
  record a non-empty text which \<^verbatim>\<open>json.Unmarshal\<close> reads back, \<^verbatim>\<open>loadState\<close> on
  the tree after the \<^verbatim>\<open>Commit\<close> returns a state whose \<^verbatim>\<open>UncommitKeys\<close> is that
  list, which is not empty when keys were tracked.
\<close>

theorem Commit_stores_tracked_keys:
  "r = (exported (state (snd (Commit Sum256 Marshal app))))
         \<lparr>uncommit_keys := UncommitKeys (state app)\<rparr> \<Longrightarrow>
   Marshal r \<noteq> [] \<Longrightarrow> Unmarshal (Marshal r) = Some r \<Longrightarrow>
   UncommitKeys (state app) \<noteq> [] \<Longrightarrow>
   db (state (snd (Commit Sum256 Marshal app))) stateKey = Some (Marshal r)
   \<and> uncommit_keys r = UncommitKeys (state app)
   \<and> UncommitKeys (state (snd (Commit Sum256 Marshal app))) = []
   \<and> loadState Unmarshal (db (state (snd (Commit Sum256 Marshal app))))
       = Some (fromRecord r (db (state (snd (Commit Sum256 Marshal app)))))
   \<and> UncommitKeys (fromRecord r (db (state (snd (Commit Sum256 Marshal app)))))
       = UncommitKeys (state app)
   \<and> UncommitKeys (fromRecord r (db (state (snd (Commit Sum256 Marshal app))))) \<noteq> []"
proof -
  assume r: "r = (exported (state (snd (Commit Sum256 Marshal app))))
         \<lparr>uncommit_keys := UncommitKeys (state app)\<rparr>"
    and ne: "Marshal r \<noteq> []" and rt: "Unmarshal (Marshal r) = Some r"
    and keys: "UncommitKeys (state app) \<noteq> []"
  have stored: "db (state (snd (Commit Sum256 Marshal app))) stateKey = Some (Marshal r)"
    by (simp add: r Commit_state Let_def exported_def)
  have tracked: "uncommit_keys r = UncommitKeys (state app)"
    by (simp add: r)
  have cleared: "UncommitKeys (state (snd (Commit Sum256 Marshal app))) = []"
    by (simp add: Commit_state Let_def)
  have loaded: "loadState Unmarshal (db (state (snd (Commit Sum256 Marshal app))))
       = Some (fromRecord r (db (state (snd (Commit Sum256 Marshal app)))))"
    using ne rt by (simp add: loadState_def stored)
  have restored: "UncommitKeys (fromRecord r (db (state (snd (Commit Sum256 Marshal app)))))
       = UncommitKeys (state app)"
    by (simp add: fromRecord_def tracked)
  from stored tracked cleared loaded restored keys show ?thesis by simp
qed

theorem Commit_stores_tracked_keys_witness:
  "UncommitKeys (state (appAfter (SetStateDB ''A'' (Some ''1'') emptyApplication))) = [''A'']
   \<and> db (state (snd (Commit (\<lambda>b. b) (\<lambda>r. ''{}'') (appAfter (SetStateDB ''A'' (Some ''1'') emptyApplication)))))
        stateKey = Some ''{}''
   \<and> UncommitKeys (state (snd (Commit (\<lambda>b. b) (\<lambda>r. ''{}'')
        (appAfter (SetStateDB ''A'' (Some ''1'') emptyApplication))))) = []
   \<and> map_option UncommitKeys
        (loadState
          (\<lambda>b. Some \<lparr>size_tag = 1, height_tag = 1, app_hash = ''4131'',
                      uncommit_keys = [''A''], commit_str = ''4131''\<rparr>)
          (db (state (snd (Commit (\<lambda>b. b) (\<lambda>r. ''{}'')
             (appAfter (SetStateDB ''A'' (Some ''1'') emptyApplication)))))))
       = Some [''A'']"
proof -
  let ?app = "appAfter (SetStateDB ''A'' (Some ''1'') emptyApplication)"
  let ?r = "\<lparr>size_tag = 1, height_tag = 1, app_hash = ''4131'',
             uncommit_keys = [''A''], commit_str = ''4131''\<rparr>"
  have k: "UncommitKeys (state ?app) = [''A'']"
    by (simp add: SetStateDB_def emptyApplication_def zeroState_def)
  have r: "?r = (exported (state (snd (Commit (\<lambda>b. b) (\<lambda>r. ''{}'') ?app))))
         \<lparr>uncommit_keys := UncommitKeys (state ?app)\<rparr>"
    by (simp add: Commit_state Let_def exported_def accumulator_def SetStateDB_def
        emptyApplication_def zeroState_def hextable_def)
  have ne: "(\<lambda>r. ''{}'') ?r \<noteq> []"
    by simp
  have rt: "(\<lambda>b. Some ?r) ((\<lambda>r. ''{}'') ?r) = Some ?r"
    by simp
  have keys: "UncommitKeys (state ?app) \<noteq> []"
    by (simp add: k)
  from Commit_stores_tracked_keys [where Marshal = "\<lambda>r. ''{}''" and Unmarshal = "\<lambda>b. Some ?r",
      OF r ne rt keys] k
  show ?thesis by simp
qed

subsection \<open>signData\<close>

text \<open>
  C10. \<^verbatim>\<open>signData\<close> writes nothing unless it succeeds. If the response is not
  \<^verbatim>\<open>OK\<close>, its code is one of \<^verbatim>\<open>UnmarshalError\<close>, \<^verbatim>\<open>RequestIDNotFound\<close>,
  \<^verbatim>\<open>RequestIsClosed\<close>, \<^verbatim>\<open>RequestIsTimedOut\<close>, \<^verbatim>\<open>NodeIDIsNotExistInASList\<close> and
  \<^verbatim>\<open>MarshalError\<close>, and the application is returned as it was: no \<^verbatim>\<open>SetStateDB\<close>
  has run, and the tree, \<^verbatim>\<open>Size\<close> and \<^verbatim>\<open>UncommitKeys\<close> are unchanged. If the
  response is \<^verbatim>\<open>OK\<close>, the application is the result of the two \<^verbatim>\<open>SetStateDB\<close>
  calls, first the request and then the signed data.
\<close>

theorem signData_atomic:
  "(Code (fst (signData J param app nodeID)) \<noteq> OK \<longrightarrow>
      snd (signData J param app nodeID) = app
      \<and> Code (fst (signData J param app nodeID))
          \<in> {UnmarshalError, RequestIDNotFound, RequestIsClosed, RequestIsTimedOut,
              NodeIDIsNotExistInASList, MarshalError})
   \<and> (Code (fst (signData J param app nodeID)) = OK \<longrightarrow>
      (\<exists>sd stored request requestJSON signDataJSON.
         Unmarshal_SignDataParam J param = Inr sd
         \<and> db (state app) (prefixKey (''Request|'' @ RequestID sd)) = Some stored
         \<and> Unmarshal_Request J stored = Inr request
         \<and> Marshal_SignDataParam J sd = Inr signDataJSON
         \<and> Marshal_Request J (request\<lparr>DataRequestList :=
               answeredLoop (DataRequestList request) (SignDataParam.ServiceID sd) nodeID\<rparr>)
             = Inr requestJSON
         \<and> snd (signData J param app nodeID)
             = appAfter (SetStateDB (''SignData|'' @ Signature sd) (Some signDataJSON)
                 (appAfter (SetStateDB (''Request|'' @ RequestID sd) (Some requestJSON)
                    app)))))"
  by (auto simp: signData_def Let_def split: sum.splits option.splits)

text \<open>
  Two runs of \<^verbatim>\<open>signData\<close> with the same stand-ins for the JSON functions: on the
  empty application the request is not found and nothing is written; on an application
  that holds the request, the response is \<^verbatim>\<open>OK\<close> and both writes are made.
\<close>

theorem signData_atomic_witness:
  "Code (fst (signData
      \<lparr>Unmarshal_SignDataParam =
         (\<lambda>b. Inr \<lparr>SignDataParam.ServiceID = ''svc'', RequestID = ''r1'', Signature = ''sg''\<rparr>),
       Unmarshal_Request =
         (\<lambda>b. Inr \<lparr>IsClosed = False, IsTimedOut = False,
                   DataRequestList = [\<lparr>ServiceID = ''svc'', As = [''as1''],
                                        AnsweredAsIdList = []\<rparr>]\<rparr>),
       Marshal_SignDataParam = (\<lambda>p. Inr ''{sign}''),
       Marshal_Request = (\<lambda>q. Inr ''{request}'')\<rparr>
      ''{}'' emptyApplication ''as1'')) = RequestIDNotFound
   \<and> snd (signData
      \<lparr>Unmarshal_SignDataParam =
         (\<lambda>b. Inr \<lparr>SignDataParam.ServiceID = ''svc'', RequestID = ''r1'', Signature = ''sg''\<rparr>),
       Unmarshal_Request =
         (\<lambda>b. Inr \<lparr>IsClosed = False, IsTimedOut = False,
                   DataRequestList = [\<lparr>ServiceID = ''svc'', As = [''as1''],
                                        AnsweredAsIdList = []\<rparr>]\<rparr>),
       Marshal_SignDataParam = (\<lambda>p. Inr ''{sign}''),
       Marshal_Request = (\<lambda>q. Inr ''{request}'')\<rparr>
      ''{}'' emptyApplication ''as1'') = emptyApplication
   \<and> signData
      \<lparr>Unmarshal_SignDataParam =
         (\<lambda>b. Inr \<lparr>SignDataParam.ServiceID = ''svc'', RequestID = ''r1'', Signature = ''sg''\<rparr>),
       Unmarshal_Request =
         (\<lambda>b. Inr \<lparr>IsClosed = False, IsTimedOut = False,
                   DataRequestList = [\<lparr>ServiceID = ''svc'', As = [''as1''],
                                        AnsweredAsIdList = []\<rparr>]\<rparr>),
       Marshal_SignDataParam = (\<lambda>p. Inr ''{sign}''),
       Marshal_Request = (\<lambda>q. Inr ''{request}'')\<rparr>
      ''{}'' (appAfter (SetStateDB ''Request|r1'' (Some ''{}'') emptyApplication)) ''as1''
     = (ReturnDeliverTxLog OK ''success'' ''r1'',
        appAfter (SetStateDB ''SignData|sg'' (Some ''{sign}'')
          (appAfter (SetStateDB ''Request|r1'' (Some ''{request}'')
            (appAfter (SetStateDB ''Request|r1'' (Some ''{}'') emptyApplication))))))"
proof -
  let ?J = "\<lparr>Unmarshal_SignDataParam =
         (\<lambda>b. Inr \<lparr>SignDataParam.ServiceID = ''svc'', RequestID = ''r1'', Signature = ''sg''\<rparr>),
       Unmarshal_Request =
         (\<lambda>b. Inr \<lparr>IsClosed = False, IsTimedOut = False,
                   DataRequestList = [\<lparr>ServiceID = ''svc'', As = [''as1''],
                                        AnsweredAsIdList = []\<rparr>]\<rparr>),
       Marshal_SignDataParam = (\<lambda>p. Inr ''{sign}''),
       Marshal_Request = (\<lambda>q. Inr ''{request}'')\<rparr>"
  have c: "Code (fst (signData ?J ''{}'' emptyApplication ''as1'')) = RequestIDNotFound"
    by (simp add: signData_def emptyApplication_def zeroState_def)
  have ok: "signData ?J ''{}'' (appAfter (SetStateDB ''Request|r1'' (Some ''{}'') emptyApplication)) ''as1''
     = (ReturnDeliverTxLog OK ''success'' ''r1'',
        appAfter (SetStateDB ''SignData|sg'' (Some ''{sign}'')
          (appAfter (SetStateDB ''Request|r1'' (Some ''{request}'')
            (appAfter (SetStateDB ''Request|r1'' (Some ''{}'') emptyApplication))))))"
    by (simp add: signData_def Let_def SetStateDB_def emptyApplication_def zeroState_def)
  from c ok signData_atomic [of ?J "''{}''" emptyApplication "''as1''"]
  show ?thesis by simp
qed

end
